theory Spec2Isabelle
  imports
    Complex_Main
    "HOL-Library.Char_ord"
    "HOL-Library.List_Lexorder"
    "HOL-Library.Product_Lexorder"
    "HOL-Library.Multiset"
begin

section \<open>Python values shared by the three modules\<close>

text \<open>
  Exceptions are values: the class of the exception with its message. A function that
  can raise returns \<open>py_error + 'a\<close>, \<open>Inl\<close> being the raise.
\<close>

datatype py_error =
    Exception string
  | ValueError string
  | IndexError string
  | AttributeError string
  | TypeError string
  | UnboundLocalError string
  | BedTableLoadException string

text \<open>Python's \<open>str\<close> of an integer (also what the format \<open>{:d}\<close> prints).\<close>

definition digit_char :: "nat \<Rightarrow> char" where
  "digit_char d = char_of (48 + d)"

function str_nat :: "nat \<Rightarrow> string" where
  "str_nat n = (if n < 10 then [digit_char n] else str_nat (n div 10) @ [digit_char (n mod 10)])"
  by pat_completeness auto
termination
  by (relation "measure id") auto

declare str_nat.simps [simp del]

definition str_int :: "int \<Rightarrow> string" where
  "str_int i = (if i < 0 then CHR ''-'' # str_nat (nat (- i)) else str_nat (nat i))"

section \<open>count\_bw\_sig.py: the signal of one region\<close>

text \<open>
  A bigWig reader is the function \<open>values(chrom, start, end)\<close> of the pyBigWig handle: one
  number per base, \<open>None\<close> standing for a NaN (a base without data). Numbers are exact
  reals: rounding of floats is not part of the model.
\<close>

type_synonym bw_reader = "string \<Rightarrow> int \<Rightarrow> int \<Rightarrow> real option list"

definition nan_to_num :: "real option list \<Rightarrow> real list" where
  "nan_to_num xs = map (\<lambda>x. case x of None \<Rightarrow> 0 | Some v \<Rightarrow> v) xs"

text \<open>
  The value returned is a numpy float: a division by a region length of zero does not
  raise, it gives an infinity or a NaN.
\<close>

datatype np_float = Finite real | PosInf | NegInf | NaN

fun np_div_int :: "np_float \<Rightarrow> int \<Rightarrow> np_float" where
  "np_div_int (Finite c) n =
     (if n \<noteq> 0 then Finite (c / of_int n)
      else if 0 < c then PosInf else if c < 0 then NegInf else NaN)"
| "np_div_int PosInf n = (if 0 \<le> n then PosInf else NegInf)"
| "np_div_int NegInf n = (if 0 \<le> n then NegInf else PosInf)"
| "np_div_int NaN n = NaN"

fun np_mul_int :: "np_float \<Rightarrow> int \<Rightarrow> np_float" where
  "np_mul_int (Finite x) k = Finite (x * of_int k)"
| "np_mul_int PosInf k = (if 0 < k then PosInf else if k < 0 then NegInf else NaN)"
| "np_mul_int NegInf k = (if 0 < k then NegInf else if k < 0 then PosInf else NaN)"
| "np_mul_int NaN k = NaN"

text \<open>
  Lines 252 to 262 of \<open>count_single_region\<close>: the bounds that are queried, or the raise.
\<close>

definition resolve_padding ::
  "string \<Rightarrow> int \<Rightarrow> int \<Rightarrow> int \<Rightarrow> int \<Rightarrow> int \<Rightarrow> string \<Rightarrow> py_error + (int \<times> int)" where
  "resolve_padding chrom start end l_pad r_pad min_len_after_padding method_resolving_invalid_padding =
     (if - l_pad - r_pad + min_len_after_padding > end - start then
        (if method_resolving_invalid_padding = ''fallback'' then Inr (start, end)
         else if method_resolving_invalid_padding = ''raise'' then
           Inl (Exception (''Padding is larger than the region ('' @ chrom @ '':'' @
                           str_int start @ ''-'' @ str_int end @ '').''))
         else
           Inl (Exception (''Unsupported method to resolve invalid padding ('' @
                           method_resolving_invalid_padding @ '').'')))
      else Inr (start - l_pad, end + r_pad))"

text \<open>
  Lines 264 to 294, with \<open>start\<close> and \<open>end\<close> as the first part left them. A local
  variable that no branch assigned is \<open>None\<close>; reading it raises UnboundLocalError.
\<close>

definition count_in_bounds ::
  "bw_reader \<Rightarrow> bw_reader \<Rightarrow> string \<Rightarrow> int \<Rightarrow> int \<Rightarrow> string \<Rightarrow> bool \<Rightarrow> string
     \<Rightarrow> py_error + np_float" where
  "count_in_bounds bw_pl bw_mn chrom start end strand single_bw output_type =
     (let pl_count = sum_list (nan_to_num (bw_pl chrom start end));
          mn_result =
            (if single_bw then
               (if \<not> strand = ''.'' then
                  Inl (Exception ''Strandness is not ignored while single_bw is set to True.'')
                else Inr 0)
             else Inr (- sum_list (nan_to_num (bw_mn chrom start end))))
      in case mn_result of
           Inl e \<Rightarrow> Inl e
         | Inr mn_count \<Rightarrow>
             (let count =
                    (if strand = ''+'' then Some pl_count
                     else if strand = ''-'' then Some mn_count
                     else if strand = ''.'' then Some (pl_count + mn_count)
                     else None)
              in if output_type = ''raw_count'' then
                   (case count of
                      None \<Rightarrow> Inl (UnboundLocalError ''count'')
                    | Some c \<Rightarrow> Inr (Finite c))
                 else if output_type = ''RPK'' then
                   (let region_length = end - start
                    in case count of
                         None \<Rightarrow> Inl (UnboundLocalError ''count'')
                       | Some c \<Rightarrow> Inr (np_mul_int (np_div_int (Finite c) region_length) 1000))
                 else Inl (UnboundLocalError ''output'')))"

definition count_single_region ::
  "bw_reader \<Rightarrow> bw_reader \<Rightarrow> string \<Rightarrow> int \<Rightarrow> int \<Rightarrow> string \<Rightarrow> bool \<Rightarrow> string
     \<Rightarrow> int \<Rightarrow> int \<Rightarrow> int \<Rightarrow> string \<Rightarrow> py_error + np_float" where
  "count_single_region bw_pl bw_mn chrom start end strand single_bw output_type
       l_pad r_pad min_len_after_padding method_resolving_invalid_padding =
     (case resolve_padding chrom start end l_pad r_pad min_len_after_padding
             method_resolving_invalid_padding of
        Inl e \<Rightarrow> Inl e
      | Inr (start', end') \<Rightarrow>
          count_in_bounds bw_pl bw_mn chrom start' end' strand single_bw output_type)"

text \<open>Readers used to run the function on concrete regions.\<close>

definition flat_reader :: "real \<Rightarrow> bw_reader" where
  "flat_reader v chrom start end = replicate (nat (end - start)) (Some v)"

definition scenario_pl :: bw_reader where
  "scenario_pl chrom start end = [Some 3, None, Some 5]"

definition scenario_mn :: bw_reader where
  "scenario_mn chrom start end = [Some (- 1), Some (- 2)]"


section \<open>merge\_multi\_bw.py: the sweep over one chromosome\<close>

text \<open>
  An interval of a bigWig is the triple \<open>(start, end, value)\<close>; the source reads it by
  position, \<open>rep[p][0]\<close>, \<open>rep[p][1]\<close> and \<open>rep[p][2]\<close>.
\<close>

type_synonym interval = "int \<times> int \<times> real"

definition ivl_start :: "interval \<Rightarrow> int" where
  "ivl_start iv = fst iv"

definition ivl_end :: "interval \<Rightarrow> int" where
  "ivl_end iv = fst (snd iv)"

definition ivl_sig :: "interval \<Rightarrow> real" where
  "ivl_sig iv = snd (snd iv)"

record sweep_state =
  rep1_pointer :: nat
  rep2_pointer :: nat
  temp_signal_stack :: "real list"
  merged_interval_list :: "interval list"

definition sweep_init :: sweep_state where
  "sweep_init = \<lparr>rep1_pointer = 0, rep2_pointer = 0, temp_signal_stack = [],
                  merged_interval_list = []\<rparr>"

text \<open>Lines 63 to 67: a pointer moves on once the position has reached the end of its interval.\<close>

definition advance_pointer :: "interval list \<Rightarrow> nat \<Rightarrow> int \<Rightarrow> nat" where
  "advance_pointer rep p i = (if p < length rep \<and> i \<ge> ivl_end (rep ! p) then p + 1 else p)"

text \<open>Lines 71 to 75: the interval under the pointer adds its value once the position is in it.\<close>

definition add_signal :: "interval list \<Rightarrow> nat \<Rightarrow> int \<Rightarrow> real \<Rightarrow> real" where
  "add_signal rep p i signal =
     (if p < length rep \<and> i \<ge> ivl_start (rep ! p) then signal + ivl_sig (rep ! p) else signal)"

text \<open>
  One turn of the loop at position \<open>i\<close>. The branches are those of lines 77 to 103 in their
  order; \<open>temp_signal_stack[-1]\<close> is only read where the stack is not empty. The messages
  written to stderr under \<open>verbose\<close> are not modelled.
\<close>

definition sweep_step :: "interval list \<Rightarrow> interval list \<Rightarrow> sweep_state \<Rightarrow> int \<Rightarrow> sweep_state" where
  "sweep_step rep1 rep2 st i =
     (let p1 = advance_pointer rep1 (rep1_pointer st) i;
          p2 = advance_pointer rep2 (rep2_pointer st) i;
          signal = add_signal rep2 p2 i (add_signal rep1 p1 i 0);
          stack = temp_signal_stack st;
          merged = merged_interval_list st
      in if signal \<noteq> 0 \<and> length stack = 0 then
           \<lparr>rep1_pointer = p1, rep2_pointer = p2, temp_signal_stack = stack @ [signal],
            merged_interval_list = merged\<rparr>
         else if signal \<noteq> 0 \<and> last stack = signal then
           \<lparr>rep1_pointer = p1, rep2_pointer = p2, temp_signal_stack = stack @ [signal],
            merged_interval_list = merged\<rparr>
         else if signal \<noteq> 0 \<and> last stack \<noteq> signal then
           \<lparr>rep1_pointer = p1, rep2_pointer = p2, temp_signal_stack = [signal],
            merged_interval_list = merged @ [(i - int (length stack), i, last stack)]\<rparr>
         else if length stack \<noteq> 0 then
           \<lparr>rep1_pointer = p1, rep2_pointer = p2, temp_signal_stack = [],
            merged_interval_list = merged @ [(i - int (length stack), i, last stack)]\<rparr>
         else
           \<lparr>rep1_pointer = p1, rep2_pointer = p2, temp_signal_stack = stack,
            merged_interval_list = merged\<rparr>)"

text \<open>The loop over \<open>range(chrom_length)\<close>, stopped after \<open>n\<close> positions.\<close>

definition sweep :: "interval list \<Rightarrow> interval list \<Rightarrow> nat \<Rightarrow> sweep_state" where
  "sweep rep1 rep2 n = foldl (sweep_step rep1 rep2) sweep_init (map int [0..<n])"

definition combine_bw_intervals :: "interval list \<Rightarrow> interval list \<Rightarrow> int \<Rightarrow> interval list" where
  "combine_bw_intervals rep1 rep2 chrom_length =
     merged_interval_list (sweep rep1 rep2 (nat chrom_length))"

text \<open>
  The signal track of the data model over a chromosome of length \<open>L\<close>: every interval is
  not empty and lies in \<open>[0, L)\<close>, the intervals are in order and do not overlap, and two
  intervals that touch have different values.
\<close>

definition touching_differ :: "interval \<Rightarrow> interval \<Rightarrow> bool" where
  "touching_differ a b = (ivl_end a = ivl_start b \<longrightarrow> ivl_sig a \<noteq> ivl_sig b)"

definition signal_track :: "int \<Rightarrow> interval list \<Rightarrow> bool" where
  "signal_track L A =
     ((\<forall>iv \<in> set A. 0 \<le> ivl_start iv \<and> ivl_start iv < ivl_end iv \<and> ivl_end iv \<le> L)
      \<and> sorted_wrt (\<lambda>a b. ivl_end a \<le> ivl_start b) A
      \<and> successively touching_differ A)"




text \<open>The state of the sweep of a track \<open>A\<close> against the empty track, before position \<open>n\<close>.\<close>

definition identity_inv :: "interval list \<Rightarrow> nat \<Rightarrow> sweep_state \<Rightarrow> bool" where
  "identity_inv A n st =
     (let p = rep1_pointer st
      in p \<le> length A \<and> rep2_pointer st = 0
         \<and> merged_interval_list st = take p A
         \<and> (p < length A \<longrightarrow> int n \<le> ivl_end (A ! p))
         \<and> temp_signal_stack st =
             (if p < length A \<and> ivl_start (A ! p) < int n
              then replicate (nat (int n - ivl_start (A ! p))) (ivl_sig (A ! p)) else []))"

section \<open>RGTools/BedTable.py: the table of regions\<close>

text \<open>
  A row holds the three columns every table has and, in \<open>r_rest\<close>, the cells of the columns
  its class adds. The frame \<open>_data_df\<close> is the list of rows in position order, each with its
  index label. Rows are taken as pandas leaves them after parsing and type coercion:
  \<open>chrom\<close> a string, \<open>start\<close> and \<open>end\<close> integers.
\<close>

datatype cell = Absent | Text string | Num real

record bed_row =
  r_chrom :: string
  r_start :: int
  r_end :: int
  r_rest :: "cell list"

type_synonym dataframe = "(nat \<times> bed_row) list"

datatype bed_class = BedTable3 | BedTable6 | BedTable6Plus | BedTablePairEnd

datatype py_type = PyStr | PyInt | PyFloat

record bed_table =
  table_class :: bed_class
  extra_column_names :: "string list"
  extra_column_dtype :: "py_type list"
  data_df :: dataframe

text \<open>
  The constructors. An argument left out (or \<open>None\<close>) is \<open>None\<close>.
  \<open>BedTable6Plus\<close> has no default for \<open>extra_column_names\<close>. \<open>BedTablePairEnd\<close> calls
  \<open>BedTable3.__init__\<close> first, which reads the property \<open>column_names\<close>, which reads
  \<open>self._extra_column_names\<close> before the constructor has set it.
\<close>

fun bed_init :: "bed_class \<Rightarrow> string list option \<Rightarrow> py_type list option \<Rightarrow> py_error + bed_table" where
  "bed_init BedTable3 names dtype =
     Inr \<lparr>table_class = BedTable3, extra_column_names = [], extra_column_dtype = [],
          data_df = []\<rparr>"
| "bed_init BedTable6 names dtype =
     Inr \<lparr>table_class = BedTable6, extra_column_names = [], extra_column_dtype = [],
          data_df = []\<rparr>"
| "bed_init BedTable6Plus None dtype =
     Inl (TypeError ''missing 1 required positional argument: 'extra_column_names' '')"
| "bed_init BedTable6Plus (Some names) dtype =
     Inr \<lparr>table_class = BedTable6Plus, extra_column_names = names,
          extra_column_dtype =
            (case dtype of None \<Rightarrow> replicate (length names) PyStr
             | Some ts \<Rightarrow> if ts = [] then replicate (length names) PyStr else ts),
          data_df = []\<rparr>"
| "bed_init BedTablePairEnd names dtype =
     Inl (AttributeError ''_extra_column_names'')"

text \<open>
  \<open>_is_sorted\<close>: the loop over \<open>i = 1 .. len - 1\<close> compares row \<open>i\<close> with row \<open>i - 1\<close> by
  position, and returns False at the first pair out of order.
\<close>

fun is_sorted_rows :: "bed_row list \<Rightarrow> bool" where
  "is_sorted_rows [] = True"
| "is_sorted_rows [r] = True"
| "is_sorted_rows (prev # cur # rest) =
     (if r_chrom cur < r_chrom prev then False
      else if r_chrom cur = r_chrom prev \<and> r_start cur < r_start prev then False
      else if r_chrom cur = r_chrom prev \<and> r_start cur = r_start prev \<and> r_end cur < r_end prev
        then False
      else is_sorted_rows (cur # rest))"

definition is_sorted :: "dataframe \<Rightarrow> bool" where
  "is_sorted df = is_sorted_rows (map snd df)"

text \<open>
  \<open>_sort\<close>: \<open>sort_values(by=["chrom", "start", "end"])\<close> of pandas, a stable sort on the
  three columns, then \<open>reset_index(drop=True)\<close>, which numbers the rows from 0.
\<close>

definition sort_key_of :: "bed_row \<Rightarrow> string \<times> int \<times> int" where
  "sort_key_of r = (r_chrom r, r_start r, r_end r)"

definition sort_values :: "dataframe \<Rightarrow> dataframe" where
  "sort_values df = sort_key (\<lambda>lr. sort_key_of (snd lr)) df"

definition reset_index :: "dataframe \<Rightarrow> dataframe" where
  "reset_index df = zip [0..<length df] (map snd df)"

definition sort_table :: "dataframe \<Rightarrow> dataframe" where
  "sort_table df = reset_index (sort_values df)"

text \<open>
  \<open>load_from_file\<close>. Reading the file and coercing the columns to their types are pandas's
  work and are parameters, each given the table for its column names and types:
  \<open>read_csv\<close> gives the raw frame or raises, \<open>force_dtype\<close> gives the typed frame or
  raises. Only a ValueError of \<open>read_csv\<close> is turned into BedTableLoadException.
\<close>

definition load_from_file ::
  "bed_table \<Rightarrow> (bed_table \<Rightarrow> string \<Rightarrow> py_error + 'raw)
     \<Rightarrow> (bed_table \<Rightarrow> 'raw \<Rightarrow> py_error + dataframe) \<Rightarrow> string \<Rightarrow> py_error + bed_table" where
  "load_from_file self read_csv force_dtype ipath =
     (case read_csv self ipath of
        Inl (ValueError m) \<Rightarrow>
          Inl (BedTableLoadException ''Error loading bed file: number of columns does not match.'')
      | Inl e \<Rightarrow> Inl e
      | Inr raw \<Rightarrow>
          (case force_dtype self raw of
             Inl e \<Rightarrow> Inl e
           | Inr df \<Rightarrow> Inr (self\<lparr>data_df := (if \<not> is_sorted df then sort_table df else df)\<rparr>)))"

text \<open>
  \<open>load_from_dataframe\<close> with the default column map, on a frame of typed rows: the new
  frame is built from the values, so its index starts again from 0.
\<close>

definition load_from_dataframe :: "bed_table \<Rightarrow> dataframe \<Rightarrow> bed_table" where
  "load_from_dataframe self df =
     (let d = reset_index df
      in self\<lparr>data_df := (if \<not> is_sorted d then sort_table d else d)\<rparr>)"

text \<open>
  The argument of \<open>apply_logical_filter\<close>: something that is not a numpy array, an array
  whose dtype is not bool (of some length), or an array of booleans.
\<close>

datatype logical_arg = NotNdarray | NdarrayOther nat | NdarrayBool "bool list"

text \<open>\<open>df.loc[mask]\<close> of pandas: a boolean mask of the wrong length raises IndexError.\<close>

definition loc_mask :: "dataframe \<Rightarrow> bool list \<Rightarrow> py_error + dataframe" where
  "loc_mask df bools =
     (if length bools \<noteq> length df then Inl (IndexError ''Boolean index has wrong length'')
      else Inr (map snd (filter fst (zip bools df))))"

definition apply_logical_filter :: "bed_table \<Rightarrow> logical_arg \<Rightarrow> py_error + bed_table" where
  "apply_logical_filter self logical_array =
     (case logical_array of
        NotNdarray \<Rightarrow> Inl (ValueError ''logical_array must be a np.array'')
      | NdarrayOther n \<Rightarrow> Inl (ValueError ''logical_array must be a boolean np.array'')
      | NdarrayBool bools \<Rightarrow>
          (case bed_init (table_class self) None None of
             Inl e \<Rightarrow> Inl e
           | Inr new_bed_table \<Rightarrow>
               (case loc_mask (data_df self) bools of
                  Inl e \<Rightarrow> Inl e
                | Inr sub \<Rightarrow> Inr (load_from_dataframe new_bed_table sub))))"

text \<open>
  \<open>region_subset\<close>: three selections, then a new table of the same class. The method
  assigns nothing to \<open>self\<close>; the pair returned is \<open>self\<close> as the call leaves it and the
  new table.
\<close>

definition region_subset ::
  "bed_table \<Rightarrow> string \<Rightarrow> int \<Rightarrow> int \<Rightarrow> bed_table \<times> (py_error + bed_table)" where
  "region_subset self chrom start end =
     (let subset_data_df = filter (\<lambda>lr. r_chrom (snd lr) = chrom) (data_df self);
          subset_data_df = filter (\<lambda>lr. r_start (snd lr) \<ge> start) subset_data_df;
          subset_data_df = filter (\<lambda>lr. r_end (snd lr) \<le> end) subset_data_df
      in (self,
          case bed_init (table_class self) (Some (extra_column_names self))
                 (Some (extra_column_dtype self)) of
            Inl e \<Rightarrow> Inl e
          | Inr new_bed_table \<Rightarrow> Inr (load_from_dataframe new_bed_table subset_data_df)))"

text \<open>
  Attribute lookup on a table object: the attributes its constructors assign, the names
  defined in the body of each class along the method resolution order, and those of
  \<open>object\<close>. No class defines \<open>__getattr__\<close>.
\<close>

fun class_attrs :: "bed_class \<Rightarrow> string list" where
  "class_attrs BedTable3 =
     [''__init__'', ''column_names'', ''column_types'', ''extra_column_names'',
      ''extra_column_dtype'', ''load_from_file'', ''load_from_dataframe'',
      ''apply_logical_filter'', ''region_subset'', ''to_dataframe'', ''write'',
      ''get_chrom_names'', ''get_start_locs'', ''get_end_locs'', ''get_region_by_index'',
      ''iter_regions'', ''_sort'', ''_is_sorted'', ''_BedTable3__force_dtype'', ''__len__'']"
| "class_attrs BedTable6 =
     [''__init__'', ''column_names'', ''column_types'', ''get_region_names'',
      ''get_region_scores'', ''get_region_strands'']"
| "class_attrs BedTable6Plus =
     [''__init__'', ''column_names'', ''column_types'', ''extra_column_names'',
      ''extra_column_dtype'', ''get_region_extra_column'']"
| "class_attrs BedTablePairEnd =
     [''__init__'', ''extra_column_names'', ''extra_column_dtype'', ''column_names'',
      ''column_types'', ''get_other_region_chroms'', ''get_other_region_starts'',
      ''get_other_region_ends'', ''get_pair_names'', ''get_pair_scores'',
      ''get_region_strands'', ''get_other_region_strands'', ''get_extra_column'',
      ''search_pair_extra_column'']"

fun mro :: "bed_class \<Rightarrow> bed_class list" where
  "mro BedTable3 = [BedTable3]"
| "mro BedTable6 = [BedTable6, BedTable3]"
| "mro BedTable6Plus = [BedTable6Plus, BedTable6, BedTable3]"
| "mro BedTablePairEnd = [BedTablePairEnd, BedTable3]"

definition object_attrs :: "string list" where
  "object_attrs =
     [''__class__'', ''__delattr__'', ''__dict__'', ''__dir__'', ''__doc__'', ''__eq__'',
      ''__format__'', ''__ge__'', ''__getattribute__'', ''__getstate__'', ''__gt__'',
      ''__hash__'', ''__init__'', ''__init_subclass__'', ''__le__'', ''__lt__'',
      ''__module__'', ''__ne__'', ''__new__'', ''__reduce__'', ''__reduce_ex__'',
      ''__repr__'', ''__setattr__'', ''__sizeof__'', ''__str__'', ''__subclasshook__'',
      ''__weakref__'']"

definition instance_attrs :: "bed_table \<Rightarrow> string list" where
  "instance_attrs self =
     [''_BedTable3__extra_column_names'', ''_BedTable3__extra_column_dtype'', ''_data_df'']
     @ (if table_class self = BedTable6Plus \<or> table_class self = BedTablePairEnd
        then [''_extra_column_names'', ''_extra_column_dtype''] else [])"

definition py_getattr :: "bed_table \<Rightarrow> string \<Rightarrow> py_error + bed_class option" where
  "py_getattr self name =
     (if name \<in> set (instance_attrs self) then Inr None
      else case find (\<lambda>c. name \<in> set (class_attrs c)) (mro (table_class self)) of
             Some c \<Rightarrow> Inr (Some c)
           | None \<Rightarrow>
               if name \<in> set object_attrs then Inr None else Inl (AttributeError name))"

text \<open>
  \<open>REGION_FILE_SUFFIX2CLASS_DICT\<close>: each entry is called without arguments;
  \<open>BedTable6Gene\<close> builds a \<open>BedTable6Plus\<close> with the one extra column \<open>gene_name\<close>.
\<close>

definition REGION_FILE_SUFFIX2CLASS_DICT :: "string \<Rightarrow> (py_error + bed_table) option" where
  "REGION_FILE_SUFFIX2CLASS_DICT =
     map_of [(''bed3'', bed_init BedTable3 None None),
             (''bed6'', bed_init BedTable6 None None),
             (''bed6gene'', bed_init BedTable6Plus (Some [''gene_name'']) (Some [PyStr]))]"

text \<open>
  Lines 220 to 224: the frame of the table with absent cells filled by \<open>"."\<close>, indexed by
  \<open>chrom_start_end\<close>.
\<close>

fun fillna :: "cell \<Rightarrow> cell" where
  "fillna Absent = Text ''.''"
| "fillna c = c"

definition region_df_of :: "bed_table \<Rightarrow> (string \<times> bed_row) list" where
  "region_df_of region_bed_table =
     map (\<lambda>lr. (r_chrom (snd lr) @ ''_'' @ str_int (r_start (snd lr)) @ ''_'' @
                 str_int (r_end (snd lr)),
                (snd lr)\<lparr>r_rest := map fillna (r_rest (snd lr))\<rparr>))
         (data_df region_bed_table)"

text \<open>
  \<open>parse_region_input\<close>. For \<open>bed3\<close> the loaded table is to be converted by the method
  \<open>load_from_BedTable3\<close> of a new \<open>BedTable6\<close>; the method is looked up before it can be
  called. The source has no body for it anywhere, so where the lookup succeeds the model
  goes on with the new table as it was constructed.
\<close>

definition parse_region_input ::
  "(bed_table \<Rightarrow> string \<Rightarrow> py_error + 'raw) \<Rightarrow> (bed_table \<Rightarrow> 'raw \<Rightarrow> py_error + dataframe)
     \<Rightarrow> string \<Rightarrow> string \<Rightarrow> py_error + (string \<times> bed_row) list" where
  "parse_region_input read_csv force_dtype region_file file_type =
     (case REGION_FILE_SUFFIX2CLASS_DICT file_type of
        None \<Rightarrow> Inl (Exception (''Unsupported region file type ('' @ file_type @ '').''))
      | Some (Inl e) \<Rightarrow> Inl e
      | Some (Inr empty_table) \<Rightarrow>
          (case load_from_file empty_table read_csv force_dtype region_file of
             Inl e \<Rightarrow> Inl e
           | Inr region_bed_table \<Rightarrow>
               if file_type = ''bed3'' then
                 (case bed_init BedTable6 None None of
                    Inl e \<Rightarrow> Inl e
                  | Inr new_region_bed_table \<Rightarrow>
                      (case py_getattr new_region_bed_table ''load_from_BedTable3'' of
                         Inl e \<Rightarrow> Inl e
                       | Inr found \<Rightarrow> Inr (region_df_of new_region_bed_table)))
               else Inr (region_df_of region_bed_table)))"

text \<open>
  The rows that \<open>region_subset\<close> keeps: those of the chromosome asked for that lie within
  \<open>[start, end]\<close> at both ends.
\<close>

definition contained :: "string \<Rightarrow> int \<Rightarrow> int \<Rightarrow> bed_row \<Rightarrow> bool" where
  "contained chrom start end r = (r_chrom r = chrom \<and> r_start r \<ge> start \<and> r_end r \<le> end)"

text \<open>A file system with one file of three rows out of order, for running the loaders.\<close>

definition three_rows :: dataframe where
  "three_rows =
     [(0, \<lparr>r_chrom = ''chr2'', r_start = 5, r_end = 9, r_rest = []\<rparr>),
      (1, \<lparr>r_chrom = ''chr1'', r_start = 7, r_end = 8, r_rest = []\<rparr>),
      (2, \<lparr>r_chrom = ''chr1'', r_start = 2, r_end = 30, r_rest = []\<rparr>)]"

definition one_file_read_csv :: "bed_table \<Rightarrow> string \<Rightarrow> py_error + dataframe" where
  "one_file_read_csv self ipath =
     (if ipath = ''regions.bed'' then Inr three_rows else Inl (Exception ''No such file''))"

definition typed_already :: "bed_table \<Rightarrow> dataframe \<Rightarrow> py_error + dataframe" where
  "typed_already self raw = Inr raw"

text \<open>The table those rows load into.\<close>

definition sorted_bed3 :: bed_table where
  "sorted_bed3 =
     \<lparr>table_class = BedTable3, extra_column_names = [], extra_column_dtype = [],
      data_df = [(0, \<lparr>r_chrom = ''chr1'', r_start = 2, r_end = 30, r_rest = []\<rparr>),
                 (1, \<lparr>r_chrom = ''chr1'', r_start = 7, r_end = 8, r_rest = []\<rparr>),
                 (2, \<lparr>r_chrom = ''chr2'', r_start = 5, r_end = 9, r_rest = []\<rparr>)]\<rparr>"

section \<open>Properties of count\_single\_region\<close>

lemma sum_flat_reader:
  "sum_list (nan_to_num (flat_reader v chrom s e)) = of_nat (nat (e - s)) * v"
  by (simp add: nan_to_num_def flat_reader_def sum_list_replicate)

lemma sum_scenario_pl: "sum_list (nan_to_num (scenario_pl chrom s e)) = 8"
  by (simp add: nan_to_num_def scenario_pl_def)

lemma sum_scenario_mn: "sum_list (nan_to_num (scenario_mn chrom s e)) = - 3"
  by (simp add: nan_to_num_def scenario_mn_def)

text \<open>
  Claim C1, as the code has it. The padding is invalid exactly when the region is shorter
  than \<open>min_len_after_padding - l_pad - r_pad\<close>, that is when the padded length
  \<open>(end + r_pad) - (start - l_pad)\<close> falls below the minimum. Then \<open>raise\<close> fails with an
  exception and \<open>fallback\<close> queries the original bounds; otherwise the query is over
  \<open>start - l_pad\<close> and \<open>end + r_pad\<close>.
\<close>

theorem count_single_region_padding:
  "(end - start < min_len - l_pad - r_pad \<and> method = ''raise'' \<longrightarrow>
      (\<exists>msg. count_single_region bw_pl bw_mn chrom start end strand single_bw output_type
                 l_pad r_pad min_len method = Inl (Exception msg)))
   \<and> (end - start < min_len - l_pad - r_pad \<and> method = ''fallback'' \<longrightarrow>
        count_single_region bw_pl bw_mn chrom start end strand single_bw output_type
          l_pad r_pad min_len method
        = count_in_bounds bw_pl bw_mn chrom start end strand single_bw output_type)
   \<and> (\<not> end - start < min_len - l_pad - r_pad \<longrightarrow>
        count_single_region bw_pl bw_mn chrom start end strand single_bw output_type
          l_pad r_pad min_len method
        = count_in_bounds bw_pl bw_mn chrom (start - l_pad) (end + r_pad) strand single_bw
            output_type)"
  by (simp add: count_single_region_def resolve_padding_def)

text \<open>
  A region of length 30 shrunk by 20 on each side under a minimum of 50: \<open>raise\<close> fails,
  \<open>fallback\<close> reads the 30 bases. Padded by 100 on each side it is valid and 230 bases
  are read.
\<close>

theorem count_single_region_padding_witness:
  "(30::int) - 0 < 50 - (- 20) - (- 20)
   \<and> (\<exists>msg. count_single_region (flat_reader 1) (flat_reader 1) ''chr1'' 0 30 ''+'' False
               ''raw_count'' (- 20) (- 20) 50 ''raise'' = Inl (Exception msg))
   \<and> count_single_region (flat_reader 1) (flat_reader 1) ''chr1'' 0 30 ''+'' False
        ''raw_count'' (- 20) (- 20) 50 ''fallback'' = Inr (Finite 30)
   \<and> \<not> (30::int) - 0 < 50 - 100 - 100
   \<and> count_single_region (flat_reader 1) (flat_reader 1) ''chr1'' 0 30 ''+'' False
        ''raw_count'' 100 100 50 ''fallback'' = Inr (Finite 230)"
  using count_single_region_padding [of 30 0 50 "- 20" "- 20" "''raise''" "flat_reader 1"
      "flat_reader 1" "''chr1''" "''+''" False "''raw_count''"]
    count_single_region_padding [of 30 0 50 "- 20" "- 20" "''fallback''" "flat_reader 1"
      "flat_reader 1" "''chr1''" "''+''" False "''raw_count''"]
    count_single_region_padding [of 30 0 50 100 100 "''fallback''" "flat_reader 1"
      "flat_reader 1" "''chr1''" "''+''" False "''raw_count''"]
  by (simp add: count_in_bounds_def sum_flat_reader)

text \<open>
  The scenario of the claim: \<open>l_pad = r_pad = 100\<close>, a minimum of 50, a region of length 30,
  so that \<open>end - start < min_len + l_pad + r_pad\<close>. Under \<open>raise\<close> the call does not fail, and
  under either policy the query is over the 230 padded bases, not the original 30.
\<close>

theorem count_single_region_padding_counterexample:
  "(30::int) - 0 < 50 + 100 + 100
   \<and> count_single_region (flat_reader 1) (flat_reader 1) ''chr1'' 0 30 ''+'' False
        ''raw_count'' 100 100 50 ''raise'' = Inr (Finite 230)
   \<and> count_single_region (flat_reader 1) (flat_reader 1) ''chr1'' 0 30 ''+'' False
        ''raw_count'' 100 100 50 ''fallback'' = Inr (Finite 230)"
  by (simp add: count_single_region_def resolve_padding_def count_in_bounds_def sum_flat_reader)

text \<open>
  Claim C4. With valid padding and two readers, the sum read from the minus reader is
  negated, and the count is the plus sum for strand \<open>+\<close>, the negated minus sum for \<open>-\<close>
  and their sum for \<open>.\<close>; any other strand leaves \<open>count\<close> unassigned. In particular a
  plus sum of 8 and a minus reading of -3 on strand \<open>.\<close> give 11.
\<close>

theorem count_single_region_strand:
  "(\<not> end - start < min_len - l_pad - r_pad \<and> \<not> single_bw \<longrightarrow>
      count_single_region bw_pl bw_mn chrom start end strand single_bw ''raw_count''
        l_pad r_pad min_len method
      = (let pl_count = sum_list (nan_to_num (bw_pl chrom (start - l_pad) (end + r_pad)));
             mn_count = - sum_list (nan_to_num (bw_mn chrom (start - l_pad) (end + r_pad)))
         in if strand = ''+'' then Inr (Finite pl_count)
            else if strand = ''-'' then Inr (Finite mn_count)
            else if strand = ''.'' then Inr (Finite (pl_count + mn_count))
            else Inl (UnboundLocalError ''count'')))
   \<and> (\<not> end - start < min_len - l_pad - r_pad \<and> \<not> single_bw
        \<and> sum_list (nan_to_num (bw_pl chrom (start - l_pad) (end + r_pad))) = 8
        \<and> sum_list (nan_to_num (bw_mn chrom (start - l_pad) (end + r_pad))) = - 3 \<longrightarrow>
        count_single_region bw_pl bw_mn chrom start end ''.'' single_bw ''raw_count''
          l_pad r_pad min_len method = Inr (Finite 11))"
  by (simp add: count_single_region_def resolve_padding_def count_in_bounds_def Let_def)

theorem count_single_region_strand_witness:
  "\<not> (10::int) - 0 < 5 - 0 - 0
   \<and> sum_list (nan_to_num (scenario_pl ''chr1'' (0 - 0) (10 + 0))) = 8
   \<and> sum_list (nan_to_num (scenario_mn ''chr1'' (0 - 0) (10 + 0))) = - 3
   \<and> count_single_region scenario_pl scenario_mn ''chr1'' 0 10 ''.'' False ''raw_count''
        0 0 5 ''raise'' = Inr (Finite 11)
   \<and> count_single_region scenario_pl scenario_mn ''chr1'' 0 10 ''+'' False ''raw_count''
        0 0 5 ''raise'' = Inr (Finite 8)
   \<and> count_single_region scenario_pl scenario_mn ''chr1'' 0 10 ''-'' False ''raw_count''
        0 0 5 ''raise'' = Inr (Finite 3)"
  using count_single_region_strand [of 10 0 5 0 0 False scenario_pl scenario_mn "''chr1''"
      "''.''" "''raise''"]
    count_single_region_strand [of 10 0 5 0 0 False scenario_pl scenario_mn "''chr1''"
      "''+''" "''raise''"]
    count_single_region_strand [of 10 0 5 0 0 False scenario_pl scenario_mn "''chr1''"
      "''-''" "''raise''"]
  by (simp add: sum_scenario_pl sum_scenario_mn)



section \<open>Properties of combine\_bw\_intervals\<close>

lemma sweep_Suc: "sweep rep1 rep2 (Suc n) = sweep_step rep1 rep2 (sweep rep1 rep2 n) (int n)"
  by (simp add: sweep_def)

lemma sweep_0: "sweep rep1 rep2 0 = sweep_init"
  by (simp add: sweep_def)

lemmas sweep_eval =
  combine_bw_intervals_def eval_nat_numeral sweep_Suc sweep_0 sweep_init_def sweep_step_def
  advance_pointer_def add_signal_def ivl_start_def ivl_end_def ivl_sig_def Let_def


lemma combine_with_gap:
  "combine_bw_intervals [(0, 5, 2), (5, 7, 3), (9, 12, 3)] [] 20
   = [(0, 5, 2), (5, 7, 3), (9, 12, 3)]"
  by (simp add: sweep_eval)

text \<open>
  Claim C3. The tracks \<open>[(0, 10, 2.0)]\<close> and \<open>[(5, 15, 3.0)]\<close> over a chromosome of length 20
  merge into \<open>[(0, 5, 2.0), (5, 10, 5.0), (10, 15, 3.0)]\<close>.
\<close>

theorem combine_bw_intervals_scenario_B:
  "combine_bw_intervals [(0, 10, 2)] [(5, 15, 3)] 20 = [(0, 5, 2), (5, 10, 5), (10, 15, 3)]"
  by (simp add: sweep_eval)

subsection \<open>The runs given out are in order, and touching runs differ\<close>









subsection \<open>Merging with the empty track\<close>

lemma successively_nth:
  "successively P xs \<Longrightarrow> Suc k < length xs \<Longrightarrow> P (xs ! k) (xs ! Suc k)"
proof (induction P xs arbitrary: k rule: successively.induct)
  case (3 P x y xs)
  then show ?case by (cases k) auto
qed auto

lemma interval_eq: "(ivl_start iv, ivl_end iv, ivl_sig iv) = iv"
  by (simp add: ivl_start_def ivl_end_def ivl_sig_def)

lemma identity_inv_step:
  assumes inv: "identity_inv A n st"
    and f1: "\<And>k. k < length A \<Longrightarrow> ivl_start (A ! k) < ivl_end (A ! k)"
    and f2: "\<And>k. Suc k < length A \<Longrightarrow> ivl_end (A ! k) \<le> ivl_start (A ! Suc k)"
    and f3: "\<And>k. Suc k < length A \<Longrightarrow> touching_differ (A ! k) (A ! Suc k)"
    and f4: "\<And>k. k < length A \<Longrightarrow> ivl_sig (A ! k) \<noteq> 0"
  shows "identity_inv A (Suc n) (sweep_step A [] st (int n))"
proof -
  define p where "p = rep1_pointer st"
  from inv have i1: "p \<le> length A" and i2: "rep2_pointer st = 0"
    and i3: "merged_interval_list st = take p A"
    and i4: "p < length A \<Longrightarrow> int n \<le> ivl_end (A ! p)"
    and i5: "temp_signal_stack st =
             (if p < length A \<and> ivl_start (A ! p) < int n
              then replicate (nat (int n - ivl_start (A ! p))) (ivl_sig (A ! p)) else [])"
    by (simp_all add: identity_inv_def p_def Let_def)
  consider (touch) "p < length A" "ivl_end (A ! p) \<le> int n" "Suc p < length A"
      "ivl_start (A ! Suc p) \<le> int n"
    | (gap) "p < length A" "ivl_end (A ! p) \<le> int n"
      "\<not> (Suc p < length A \<and> ivl_start (A ! Suc p) \<le> int n)"
    | (first) "p < length A" "\<not> ivl_end (A ! p) \<le> int n" "ivl_start (A ! p) = int n"
    | (inside) "p < length A" "\<not> ivl_end (A ! p) \<le> int n" "ivl_start (A ! p) < int n"
    | (before) "p < length A" "\<not> ivl_end (A ! p) \<le> int n" "int n < ivl_start (A ! p)"
    | (past) "p = length A"
    using i1 by linarith
  then show ?thesis
  proof cases
    case touch
    have e: "ivl_end (A ! p) = int n" using touch i4 by simp
    have s: "ivl_start (A ! Suc p) = int n" using touch f2[of p] e by simp
    have lt: "ivl_start (A ! p) < int n" using f1[of p] touch e by simp
    have d: "ivl_sig (A ! p) \<noteq> ivl_sig (A ! Suc p)"
      using f3[of p] touch e s by (simp add: touching_differ_def)
    have nz: "ivl_sig (A ! Suc p) \<noteq> 0" using f4 touch by simp
    have n1: "int n < ivl_end (A ! Suc p)" using f1[of "Suc p"] touch s by simp
    have ne: "nat (int n - ivl_start (A ! p)) \<noteq> 0" using lt by simp
    have new: "(int n - (int n - ivl_start (A ! p)), int n, ivl_sig (A ! p)) = A ! p"
      using e interval_eq[of "A ! p"] by simp
    show ?thesis
      using touch e s lt d nz n1 i2 i3 i5 ne new
      by (simp add: identity_inv_def sweep_step_def advance_pointer_def add_signal_def Let_def
          p_def[symmetric] take_Suc_conv_app_nth)
  next
    case gap
    have e: "ivl_end (A ! p) = int n" using gap i4 by simp
    have lt: "ivl_start (A ! p) < int n" using f1[of p] gap e by simp
    have ne: "nat (int n - ivl_start (A ! p)) \<noteq> 0" using lt by simp
    have new: "(int n - (int n - ivl_start (A ! p)), int n, ivl_sig (A ! p)) = A ! p"
      using e interval_eq[of "A ! p"] by simp
    have nx: "Suc p < length A \<Longrightarrow> int n < ivl_start (A ! Suc p)" using gap by simp
    have nx2: "Suc p < length A \<Longrightarrow> int n + 1 \<le> ivl_end (A ! Suc p)"
      using nx f1[of "Suc p"] by simp
    show ?thesis
      using gap e lt i2 i3 i5 ne new nx nx2
      by (auto simp add: identity_inv_def sweep_step_def advance_pointer_def add_signal_def
          Let_def p_def[symmetric] take_Suc_conv_app_nth)
  next
    case first
    show ?thesis
      using first i2 i3 i5 f4[of p]
      by (simp add: identity_inv_def sweep_step_def advance_pointer_def add_signal_def Let_def
          p_def[symmetric])
  next
    case inside
    have ne: "nat (int n - ivl_start (A ! p)) \<noteq> 0" using inside by simp
    have r: "replicate (nat (int n - ivl_start (A ! p))) (ivl_sig (A ! p)) @ [ivl_sig (A ! p)]
             = replicate (nat (int n + 1 - ivl_start (A ! p))) (ivl_sig (A ! p))"
    proof -
      have "nat (int n + 1 - ivl_start (A ! p)) = Suc (nat (int n - ivl_start (A ! p)))"
        using inside by simp
      then show ?thesis by (simp add: replicate_append_same)
    qed
    show ?thesis
      using inside i2 i3 i5 f4[of p] ne r
      by (simp add: identity_inv_def sweep_step_def advance_pointer_def add_signal_def Let_def
          p_def[symmetric])
  next
    case before
    show ?thesis
      using before i2 i3 i5
      by (simp add: identity_inv_def sweep_step_def advance_pointer_def add_signal_def Let_def
          p_def[symmetric])
  next
    case past
    show ?thesis
      using past i2 i3 i5
      by (simp add: identity_inv_def sweep_step_def advance_pointer_def add_signal_def Let_def
          p_def[symmetric])
  qed
qed

lemma identity_inv_sweep:
  assumes trk: "signal_track L A" and nz: "\<forall>iv \<in> set A. ivl_sig iv \<noteq> 0"
  shows "identity_inv A n (sweep A [] n)"
proof (induction n)
  case 0
  have "0 \<le> ivl_start (A ! 0) \<and> 0 \<le> ivl_end (A ! 0)" if "0 < length A"
  proof -
    have "A ! 0 \<in> set A" using that by (rule nth_mem)
    then have "0 \<le> ivl_start (A ! 0) \<and> ivl_start (A ! 0) < ivl_end (A ! 0)"
      using trk by (simp add: signal_track_def)
    then show ?thesis by simp
  qed
  then show ?case
    by (simp add: identity_inv_def sweep_0 sweep_init_def)
next
  case (Suc n)
  have f1: "\<And>k. k < length A \<Longrightarrow> ivl_start (A ! k) < ivl_end (A ! k)"
    using trk by (simp add: signal_track_def)
  have f2: "\<And>k. Suc k < length A \<Longrightarrow> ivl_end (A ! k) \<le> ivl_start (A ! Suc k)"
    using trk sorted_wrt_nth_less[of "\<lambda>a b. ivl_end a \<le> ivl_start b" A]
    by (simp add: signal_track_def)
  have f3: "\<And>k. Suc k < length A \<Longrightarrow> touching_differ (A ! k) (A ! Suc k)"
    using trk successively_nth[of touching_differ A] by (simp add: signal_track_def)
  have f4: "\<And>k. k < length A \<Longrightarrow> ivl_sig (A ! k) \<noteq> 0"
    using nz by simp
  show ?case
    using identity_inv_step[OF Suc f1 f2 f3 f4] by (simp add: sweep_Suc)
qed

text \<open>
  Claim C2, as the code has it. A signal track over length \<open>L\<close> whose values are all
  nonzero and whose last interval ends before \<open>L\<close> is returned unchanged by the merge with
  the empty track.
\<close>

theorem combine_bw_intervals_identity:
  assumes "signal_track L A" and "\<forall>iv \<in> set A. ivl_sig iv \<noteq> 0 \<and> ivl_end iv < L"
  shows "combine_bw_intervals A [] L = A"
proof -
  define st where "st = sweep A [] (nat L)"
  have inv: "identity_inv A (nat L) st"
    using identity_inv_sweep[of L A "nat L"] assms by (simp add: st_def)
  have "\<not> rep1_pointer st < length A"
  proof
    assume lt: "rep1_pointer st < length A"
    then have "int (nat L) \<le> ivl_end (A ! rep1_pointer st)"
      using inv by (simp add: identity_inv_def Let_def)
    moreover have "ivl_end (A ! rep1_pointer st) < L"
      using assms(2) lt by simp
    ultimately show False by arith
  qed
  then have "rep1_pointer st = length A"
    using inv by (simp add: identity_inv_def Let_def)
  then have "merged_interval_list st = A"
    using inv by (simp add: identity_inv_def Let_def)
  then show ?thesis
    by (simp add: combine_bw_intervals_def st_def)
qed
theorem combine_bw_intervals_identity_witness:
  "signal_track 20 [(0, 5, 2), (5, 7, 3), (9, 12, 3)]
   \<and> list_all (\<lambda>iv. ivl_sig iv \<noteq> 0 \<and> ivl_end iv < 20) [(0, 5, 2), (5, 7, 3), (9, 12, 3)]
   \<and> combine_bw_intervals [(0, 5, 2), (5, 7, 3), (9, 12, 3)] [] 20
       = [(0, 5, 2), (5, 7, 3), (9, 12, 3)]"
proof -
  have t: "signal_track 20 [(0, 5, 2), (5, 7, 3), (9, 12, 3)]"
    by (simp add: signal_track_def ivl_start_def ivl_end_def ivl_sig_def touching_differ_def)
  have v: "\<forall>iv \<in> set [(0, 5, 2), (5, 7, 3), (9, 12, 3)]. ivl_sig iv \<noteq> 0 \<and> ivl_end iv < 20"
    by (simp add: ivl_end_def ivl_sig_def)
  show ?thesis
    using t v combine_bw_intervals_identity [OF t v] by (simp add: list_all_iff)
qed

text \<open>
  A track whose only interval ends at the chromosome length loses it: the run that is
  open when the loop ends is not written out. A track with an interval of value 0 loses
  that interval.
\<close>

theorem combine_bw_intervals_identity_counterexample:
  "signal_track 10 [(0, 10, 2)] \<and> combine_bw_intervals [(0, 10, 2)] [] 10 = []
   \<and> signal_track 20 [(0, 5, 0)] \<and> combine_bw_intervals [(0, 5, 0)] [] 20 = []"
  by (simp add: sweep_eval signal_track_def)

section \<open>Properties of the table of regions\<close>

lemma is_sorted_rows_successively:
  "is_sorted_rows rs \<longleftrightarrow> successively (\<lambda>a b. sort_key_of a \<le> sort_key_of b) rs"
  by (induction rs rule: is_sorted_rows.induct) (auto simp: sort_key_of_def)

lemma is_sorted_rows_sorted: "is_sorted_rows rs \<longleftrightarrow> sorted (map sort_key_of rs)"
proof -
  have "successively (\<lambda>a b. sort_key_of a \<le> sort_key_of b) rs
        \<longleftrightarrow> sorted_wrt (\<lambda>a b. sort_key_of a \<le> sort_key_of b) rs"
    by (rule successively_conv_sorted_wrt) (auto simp: transp_def)
  then show ?thesis
    by (simp add: is_sorted_rows_successively sorted_map)
qed

lemma rows_reset_index: "map snd (reset_index df) = map snd df"
  by (simp add: reset_index_def)

lemma labels_reset_index: "map fst (reset_index df) = [0..<length df]"
  by (simp add: reset_index_def)

lemma map_snd_insort_key:
  "map snd (insort_key (\<lambda>lr. f (snd lr)) x xs) = insort_key f (snd x) (map snd xs)"
  by (induction xs) auto

lemma rows_sort_values: "map snd (sort_values df) = sort_key sort_key_of (map snd df)"
  by (induction df) (simp_all add: sort_values_def map_snd_insort_key)

lemma rows_sort_table: "map snd (sort_table df) = sort_key sort_key_of (map snd df)"
  by (simp add: sort_table_def rows_reset_index rows_sort_values)

lemma labels_sort_table: "map fst (sort_table df) = [0..<length df]"
  by (simp add: sort_table_def labels_reset_index sort_values_def)

lemma is_sorted_sort_table: "is_sorted (sort_table df)"
  by (simp add: is_sorted_def is_sorted_rows_sorted rows_sort_table)

lemma is_sorted_filter: "is_sorted df \<Longrightarrow> is_sorted (filter P df)"
proof -
  assume "is_sorted df"
  then have "sorted (map (\<lambda>lr. sort_key_of (snd lr)) df)"
    by (simp add: is_sorted_def is_sorted_rows_sorted comp_def)
  then have "sorted (map (\<lambda>lr. sort_key_of (snd lr)) (filter P df))"
    by (rule sorted_filter)
  then show ?thesis
    by (simp add: is_sorted_def is_sorted_rows_sorted comp_def)
qed

lemma is_sorted_reset_index: "is_sorted (reset_index df) = is_sorted df"
  by (simp add: is_sorted_def rows_reset_index)

lemma mset_rows_reset_index: "mset (map snd (reset_index df)) = mset (map snd df)"
  by (simp only: rows_reset_index)

lemma mset_rows_sort_table: "mset (map snd (sort_table df)) = mset (map snd df)"
  by (simp only: rows_sort_table mset_sort)

lemma length_reset_index: "length (reset_index df) = length df"
  by (simp add: reset_index_def)

lemma sorted_rows_sort_table: "sorted (map sort_key_of (map snd (sort_table df)))"
  by (simp only: rows_sort_table sorted_sort_key)

lemma stable_sort_table:
  "filter (\<lambda>r. sort_key_of r = k) (map snd (sort_table df))
   = filter (\<lambda>r. sort_key_of r = k) (map snd df)"
  by (simp only: rows_sort_table sort_key_stable)

lemma load_from_dataframe_class:
  "table_class (load_from_dataframe self df) = table_class self"
  by (simp add: load_from_dataframe_def Let_def)

lemma load_from_dataframe_mset:
  "mset (map snd (data_df (load_from_dataframe self df))) = mset (map snd df)"
proof (cases "is_sorted (reset_index df)")
  case True
  then have "data_df (load_from_dataframe self df) = reset_index df"
    by (simp add: load_from_dataframe_def Let_def)
  then show ?thesis by (simp only: mset_rows_reset_index)
next
  case False
  then have "data_df (load_from_dataframe self df) = sort_table (reset_index df)"
    by (simp add: load_from_dataframe_def Let_def)
  then show ?thesis by (simp only: mset_rows_sort_table mset_rows_reset_index)
qed

lemma load_from_dataframe_sorted_input:
  assumes "is_sorted df"
  shows "map snd (data_df (load_from_dataframe self df)) = map snd df"
proof -
  have "is_sorted (reset_index df)" using assms by (simp add: is_sorted_reset_index)
  then have "data_df (load_from_dataframe self df) = reset_index df"
    by (simp add: load_from_dataframe_def Let_def)
  then show ?thesis by (simp only: rows_reset_index)
qed

lemma load_from_dataframe_is_sorted: "is_sorted (data_df (load_from_dataframe self df))"
  by (simp add: load_from_dataframe_def Let_def is_sorted_sort_table)

lemma load_from_dataframe_labels:
  "map fst (data_df (load_from_dataframe self df)) = [0..<length df]"
  by (simp add: load_from_dataframe_def Let_def labels_sort_table labels_reset_index
      length_reset_index)

lemma three_rows_unsorted: "\<not> is_sorted three_rows"
  by (simp add: three_rows_def is_sorted_def less_char_def)

lemma three_rows_sorted:
  "sort_table three_rows =
     [(0, \<lparr>r_chrom = ''chr1'', r_start = 2, r_end = 30, r_rest = []\<rparr>),
      (1, \<lparr>r_chrom = ''chr1'', r_start = 7, r_end = 8, r_rest = []\<rparr>),
      (2, \<lparr>r_chrom = ''chr2'', r_start = 5, r_end = 9, r_rest = []\<rparr>)]"
  by (simp add: three_rows_def sort_table_def sort_values_def reset_index_def sort_key_of_def
      less_char_def less_eq_char_def upt_rec)

text \<open>
  Claim C6. After a load that succeeds the table passes \<open>is_sorted\<close>, and its rows are in
  ascending order of \<open>(chrom, start, end)\<close>, strings compared lexicographically. A frame
  that was already in order is kept as it is; otherwise the rows are sorted stably (rows
  with the same key keep their order, none is lost or added) and numbered again from 0.
  \<open>is_sorted\<close> holds of a frame exactly when each row and the next are in that order.
\<close>

theorem load_from_file_sorted:
  assumes "read_csv self ipath = Inr raw" and "force_dtype self raw = Inr df"
  shows "\<exists>t. load_from_file self read_csv force_dtype ipath = Inr t
     \<and> is_sorted (data_df t)
     \<and> (\<forall>d. is_sorted d \<longleftrightarrow>
              successively (\<lambda>a b. sort_key_of a \<le> sort_key_of b) (map snd d))
     \<and> sorted (map sort_key_of (map snd (data_df t)))
     \<and> (is_sorted df \<longrightarrow> data_df t = df)
     \<and> (\<not> is_sorted df \<longrightarrow>
           map fst (data_df t) = [0..<length df]
           \<and> mset (map snd (data_df t)) = mset (map snd df)
           \<and> (\<forall>k. filter (\<lambda>r. sort_key_of r = k) (map snd (data_df t))
                    = filter (\<lambda>r. sort_key_of r = k) (map snd df)))"
proof -
  define d where "d = (if \<not> is_sorted df then sort_table df else df)"
  have ld: "load_from_file self read_csv force_dtype ipath = Inr (self\<lparr>data_df := d\<rparr>)"
    using assms by (simp add: load_from_file_def d_def)
  have s1: "is_sorted d"
    by (simp add: d_def is_sorted_sort_table)
  have s2: "\<forall>x. is_sorted x \<longleftrightarrow>
              successively (\<lambda>a b. sort_key_of a \<le> sort_key_of b) (map snd x)"
    by (simp add: is_sorted_def is_sorted_rows_successively)
  have s3: "sorted (map sort_key_of (map snd d))"
    using s1 by (simp only: is_sorted_def is_sorted_rows_sorted)
  have s4: "is_sorted df \<longrightarrow> d = df"
    by (simp add: d_def)
  have s5: "\<not> is_sorted df \<longrightarrow>
           map fst d = [0..<length df]
           \<and> mset (map snd d) = mset (map snd df)
           \<and> (\<forall>k. filter (\<lambda>r. sort_key_of r = k) (map snd d)
                    = filter (\<lambda>r. sort_key_of r = k) (map snd df))"
  proof
    assume "\<not> is_sorted df"
    then have "d = sort_table df" by (simp add: d_def)
    then show "map fst d = [0..<length df]
           \<and> mset (map snd d) = mset (map snd df)
           \<and> (\<forall>k. filter (\<lambda>r. sort_key_of r = k) (map snd d)
                    = filter (\<lambda>r. sort_key_of r = k) (map snd df))"
      by (simp only: labels_sort_table mset_rows_sort_table stable_sort_table simp_thms)
  qed
  show ?thesis
    using ld s1 s2 s3 s4 s5 by simp
qed


theorem load_from_file_sorted_witness:
  "one_file_read_csv (projr (bed_init BedTable3 None None)) ''regions.bed'' = Inr three_rows
   \<and> typed_already (projr (bed_init BedTable3 None None)) three_rows = Inr three_rows
   \<and> \<not> is_sorted three_rows
   \<and> (\<exists>t. load_from_file (projr (bed_init BedTable3 None None)) one_file_read_csv typed_already
             ''regions.bed'' = Inr t
          \<and> is_sorted (data_df t)
          \<and> map fst (data_df t) = [0..<length three_rows]
          \<and> data_df t =
              [(0, \<lparr>r_chrom = ''chr1'', r_start = 2, r_end = 30, r_rest = []\<rparr>),
               (1, \<lparr>r_chrom = ''chr1'', r_start = 7, r_end = 8, r_rest = []\<rparr>),
               (2, \<lparr>r_chrom = ''chr2'', r_start = 5, r_end = 9, r_rest = []\<rparr>)])"
proof -
  have h1: "one_file_read_csv (projr (bed_init BedTable3 None None)) ''regions.bed''
            = Inr three_rows"
    by (simp add: one_file_read_csv_def three_rows_def)
  have h2: "typed_already (projr (bed_init BedTable3 None None)) three_rows = Inr three_rows"
    by (simp add: typed_already_def)
  have e: "load_from_file (projr (bed_init BedTable3 None None)) one_file_read_csv typed_already
             ''regions.bed''
           = Inr ((projr (bed_init BedTable3 None None))\<lparr>data_df := sort_table three_rows\<rparr>)"
    using h1 h2 three_rows_unsorted by (simp add: load_from_file_def)
  show ?thesis
    using load_from_file_sorted [of one_file_read_csv "projr (bed_init BedTable3 None None)"
        "''regions.bed''" three_rows typed_already three_rows]
      h1 h2 three_rows_unsorted e three_rows_sorted
    by auto
qed

subsection \<open>Selections\<close>

lemma filter_rows:
  "map snd (filter (\<lambda>lr. P (snd lr)) df) = filter P (map snd df)"
  by (induction df) auto

lemma subset_rows:
  "map snd (filter (\<lambda>lr. r_end (snd lr) \<le> end)
             (filter (\<lambda>lr. r_start (snd lr) \<ge> start)
               (filter (\<lambda>lr. r_chrom (snd lr) = chrom) df)))
   = filter (contained chrom start end) (map snd df)"
  by (induction df) (auto simp: contained_def)

lemma bed_init_BedTablePairEnd: "\<exists>m. bed_init BedTablePairEnd names dtype = Inl (AttributeError m)"
  by simp

lemma bed_init_same_class:
  assumes "c \<noteq> BedTablePairEnd"
  shows "\<exists>new. bed_init c (Some names) (Some dtype) = Inr new \<and> table_class new = c"
  using assms by (cases c) auto

lemma sorted_bed3_is_sorted: "is_sorted (data_df sorted_bed3)"
  by (simp add: sorted_bed3_def is_sorted_def less_char_def)

text \<open>
  Claim C8. For every table that can exist (the constructor of \<open>BedTablePairEnd\<close> always
  raises) and every query, \<open>region_subset\<close> leaves the table as it was and returns a table
  of the same class whose rows are exactly the rows of the chromosome asked for with
  \<open>start\<close> at or after the query's and \<open>end\<close> at or before the query's; on a sorted table
  they come in the same order.
\<close>

theorem region_subset_contained:
  assumes "table_class self \<noteq> BedTablePairEnd"
  shows "\<exists>t. region_subset self chrom start end = (self, Inr t)
     \<and> table_class t = table_class self
     \<and> mset (map snd (data_df t))
         = mset (filter (contained chrom start end) (map snd (data_df self)))
     \<and> (is_sorted (data_df self) \<longrightarrow>
           map snd (data_df t) = filter (contained chrom start end) (map snd (data_df self)))"
proof -
  define sub where "sub = filter (\<lambda>lr. r_end (snd lr) \<le> end)
             (filter (\<lambda>lr. r_start (snd lr) \<ge> start)
               (filter (\<lambda>lr. r_chrom (snd lr) = chrom) (data_df self)))"
  obtain new where new: "bed_init (table_class self) (Some (extra_column_names self))
      (Some (extra_column_dtype self)) = Inr new" "table_class new = table_class self"
    using bed_init_same_class[OF assms] by blast
  have rs: "region_subset self chrom start end = (self, Inr (load_from_dataframe new sub))"
    using new(1) by (simp add: region_subset_def Let_def sub_def)
  have rows: "map snd sub = filter (contained chrom start end) (map snd (data_df self))"
    unfolding sub_def by (rule subset_rows)
  have c: "table_class (load_from_dataframe new sub) = table_class self"
    using new(2) by (simp add: load_from_dataframe_class)
  have m: "mset (map snd (data_df (load_from_dataframe new sub)))
         = mset (filter (contained chrom start end) (map snd (data_df self)))"
    by (simp only: load_from_dataframe_mset rows)
  have s: "is_sorted (data_df self) \<longrightarrow>
           map snd (data_df (load_from_dataframe new sub))
           = filter (contained chrom start end) (map snd (data_df self))"
  proof
    assume "is_sorted (data_df self)"
    then have "is_sorted sub"
      unfolding sub_def by (intro is_sorted_filter)
    then show "map snd (data_df (load_from_dataframe new sub))
           = filter (contained chrom start end) (map snd (data_df self))"
      by (simp only: load_from_dataframe_sorted_input rows)
  qed
  show ?thesis
    using rs c m s by blast
qed


theorem region_subset_contained_witness:
  "table_class sorted_bed3 \<noteq> BedTablePairEnd
   \<and> is_sorted (data_df sorted_bed3)
   \<and> (\<exists>t. region_subset sorted_bed3 ''chr1'' 0 10 = (sorted_bed3, Inr t)
          \<and> map snd (data_df t) = [\<lparr>r_chrom = ''chr1'', r_start = 7, r_end = 8, r_rest = []\<rparr>])"
proof -
  have c: "table_class sorted_bed3 \<noteq> BedTablePairEnd"
    by (simp add: sorted_bed3_def)
  have f: "filter (contained ''chr1'' 0 10) (map snd (data_df sorted_bed3))
           = [\<lparr>r_chrom = ''chr1'', r_start = 7, r_end = 8, r_rest = []\<rparr>]"
    by (simp add: sorted_bed3_def contained_def)
  show ?thesis
    using region_subset_contained [OF c, of "''chr1''" 0 10] c sorted_bed3_is_sorted f
    by auto
qed

lemma masked_in_set: "x \<in> set (map snd (filter fst (zip bs xs))) \<Longrightarrow> x \<in> set xs"
  by (auto dest: set_zip_rightD)

lemma sorted_masked:
  "sorted (map f xs) \<Longrightarrow> sorted (map f (map snd (filter fst (zip bs xs))))"
proof (induction xs arbitrary: bs)
  case Nil
  show ?case by simp
next
  case (Cons x xs)
  show ?case
  proof (cases bs)
    case Nil
    then show ?thesis by simp
  next
    case (Cons b bs')
    have tl: "sorted (map f (map snd (filter fst (zip bs' xs))))"
      using Cons.IH Cons.prems by simp
    have hd: "\<forall>y \<in> set (map snd (filter fst (zip bs' xs))). f x \<le> f y"
      using Cons.prems masked_in_set[of _ bs' xs] by auto
    show ?thesis
      using Cons tl hd by auto
  qed
qed

lemma is_sorted_masked:
  assumes "is_sorted df"
  shows "is_sorted (map snd (filter fst (zip bools df)))"
proof -
  have "sorted (map (\<lambda>lr. sort_key_of (snd lr)) df)"
    using assms by (simp add: is_sorted_def is_sorted_rows_sorted comp_def)
  then have "sorted (map (\<lambda>lr. sort_key_of (snd lr)) (map snd (filter fst (zip bools df))))"
    by (rule sorted_masked)
  then show ?thesis
    by (simp add: is_sorted_def is_sorted_rows_sorted comp_def)
qed

lemma apply_logical_filter_base_classes:
  assumes "table_class self = BedTable3 \<or> table_class self = BedTable6"
  shows "(\<exists>m. apply_logical_filter self NotNdarray = Inl (ValueError m))
     \<and> (\<exists>m. apply_logical_filter self (NdarrayOther n) = Inl (ValueError m))
     \<and> (length bools \<noteq> length (data_df self) \<longrightarrow>
          (\<exists>m. apply_logical_filter self (NdarrayBool bools) = Inl (IndexError m)))
     \<and> (length bools = length (data_df self) \<longrightarrow>
          (\<exists>t. apply_logical_filter self (NdarrayBool bools) = Inr t
             \<and> table_class t = table_class self
             \<and> mset (map snd (data_df t))
                 = mset (map snd (map snd (filter fst (zip bools (data_df self)))))
             \<and> (is_sorted (data_df self) \<longrightarrow>
                  map snd (data_df t)
                  = map snd (map snd (filter fst (zip bools (data_df self)))))))"
proof -
  obtain new where new: "bed_init (table_class self) None None = Inr new"
      "table_class new = table_class self"
    using assms by auto
  have ok: "length bools = length (data_df self) \<Longrightarrow>
      apply_logical_filter self (NdarrayBool bools)
      = Inr (load_from_dataframe new (map snd (filter fst (zip bools (data_df self)))))"
    using new(1) by (simp add: apply_logical_filter_def loc_mask_def)
  have c: "table_class (load_from_dataframe new (map snd (filter fst (zip bools (data_df self)))))
           = table_class self"
    using new(2) by (simp add: load_from_dataframe_class)
  have s: "is_sorted (data_df self) \<Longrightarrow>
      map snd (data_df (load_from_dataframe new (map snd (filter fst (zip bools (data_df self))))))
      = map snd (map snd (filter fst (zip bools (data_df self))))"
    by (simp only: is_sorted_masked load_from_dataframe_sorted_input)
  have p1: "\<exists>m. apply_logical_filter self NotNdarray = Inl (ValueError m)"
    by (simp add: apply_logical_filter_def)
  have p2: "\<exists>m. apply_logical_filter self (NdarrayOther n) = Inl (ValueError m)"
    by (simp add: apply_logical_filter_def)
  have p3: "length bools \<noteq> length (data_df self) \<longrightarrow>
          (\<exists>m. apply_logical_filter self (NdarrayBool bools) = Inl (IndexError m))"
    using new(1) by (simp add: apply_logical_filter_def loc_mask_def)
  have p4: "length bools = length (data_df self) \<longrightarrow>
          (\<exists>t. apply_logical_filter self (NdarrayBool bools) = Inr t
             \<and> table_class t = table_class self
             \<and> mset (map snd (data_df t))
                 = mset (map snd (map snd (filter fst (zip bools (data_df self)))))
             \<and> (is_sorted (data_df self) \<longrightarrow>
                  map snd (data_df t)
                  = map snd (map snd (filter fst (zip bools (data_df self))))))"
    using ok c s load_from_dataframe_mset[of new "map snd (filter fst (zip bools (data_df self)))"]
    by blast
  show ?thesis
    using p1 p2 p3 p4 by blast
qed

lemma filter_raises_on_BedTable6Plus:
  assumes "table_class self = BedTable6Plus"
  shows "\<exists>m. apply_logical_filter self (NdarrayBool bools) = Inl (TypeError m)"
  using assms by (simp add: apply_logical_filter_def)

text \<open>
  Claim C9 at a table of class \<open>BedTable6Plus\<close>, with one row and a boolean mask of length
  one: the call raises TypeError, because \<open>self.__class__()\<close> is called without the
  argument that \<open>BedTable6Plus\<close> requires. \<open>region_subset\<close> passes it.
\<close>

theorem apply_logical_filter_bed6plus_example:
  "apply_logical_filter
     \<lparr>table_class = BedTable6Plus, extra_column_names = [''gene_name''],
      extra_column_dtype = [PyStr],
      data_df = [(0, \<lparr>r_chrom = ''chr1'', r_start = 0, r_end = 10,
                        r_rest = [Text ''a'', Num 1, Text ''+'', Text ''g'']\<rparr>)]\<rparr>
     (NdarrayBool [True])
   = Inl (TypeError ''missing 1 required positional argument: 'extra_column_names' '')"
  by (simp add: apply_logical_filter_def)

lemma no_load_from_BedTable3: "''load_from_BedTable3'' \<notin> set (class_attrs c)"
  by (cases c) simp_all

lemma getattr_load_from_BedTable3:
  "py_getattr self ''load_from_BedTable3'' = Inl (AttributeError ''load_from_BedTable3'')"
proof -
  have "find (\<lambda>c. ''load_from_BedTable3'' \<in> set (class_attrs c)) (mro (table_class self)) = None"
    by (simp add: find_None_iff no_load_from_BedTable3)
  then show ?thesis
    by (simp add: py_getattr_def instance_attrs_def object_attrs_def)
qed

text \<open>
  Claim C10. \<open>parse_region_input\<close> with file type \<open>bed3\<close> never returns: once the file has
  loaded it raises AttributeError for \<open>load_from_BedTable3\<close>, a name that no class of the
  hierarchy defines.
\<close>

theorem parse_region_input_bed3:
  "(\<exists>e. parse_region_input read_csv force_dtype region_file ''bed3'' = Inl e)
   \<and> (\<forall>t. load_from_file (projr (bed_init BedTable3 None None)) read_csv force_dtype region_file
            = Inr t \<longrightarrow>
          parse_region_input read_csv force_dtype region_file ''bed3''
          = Inl (AttributeError ''load_from_BedTable3''))
   \<and> (\<forall>c. ''load_from_BedTable3'' \<notin> set (class_attrs c))"
  by (auto simp add: parse_region_input_def REGION_FILE_SUFFIX2CLASS_DICT_def
      getattr_load_from_BedTable3 no_load_from_BedTable3 split: sum.splits)

theorem parse_region_input_bed3_witness:
  "(\<exists>t. load_from_file (projr (bed_init BedTable3 None None)) one_file_read_csv typed_already
          ''regions.bed'' = Inr t)
   \<and> parse_region_input one_file_read_csv typed_already ''regions.bed'' ''bed3''
       = Inl (AttributeError ''load_from_BedTable3'')"
  using parse_region_input_bed3 [of one_file_read_csv typed_already "''regions.bed''"]
  by (simp add: load_from_file_def one_file_read_csv_def typed_already_def)



end
